theory Spec2Isabelle
  imports Main
begin

section \<open>Python strings and dictionaries\<close>

text \<open>
  The program is \<^verbatim>\<open>hdf_to_tif.py\<close>. Its strings are modelled as \<^typ>\<open>string\<close>; the
  text it handles (tool reports, file names, configuration keys) is taken to be ASCII,
  so \<^verbatim>\<open>str.lower\<close> and \<^verbatim>\<open>str.upper\<close> act on the 26 letters and leave every
  other character alone.
\<close>

definition NL :: char where
  "NL = CHR 0x0A"

definition TAB :: char where
  "TAB = CHR 0x09"

definition BSLASH :: char where
  "BSLASH = CHR 0x5C"

definition lower_letters :: string where
  "lower_letters = ''abcdefghijklmnopqrstuvwxyz''"

definition upper_letters :: string where
  "upper_letters = ''ABCDEFGHIJKLMNOPQRSTUVWXYZ''"

definition lower_chr :: "char \<Rightarrow> char" where
  "lower_chr c = (case map_of (zip upper_letters lower_letters) c of Some d \<Rightarrow> d | None \<Rightarrow> c)"

definition upper_chr :: "char \<Rightarrow> char" where
  "upper_chr c = (case map_of (zip lower_letters upper_letters) c of Some d \<Rightarrow> d | None \<Rightarrow> c)"

text \<open>\<^verbatim>\<open>s.lower()\<close> and \<^verbatim>\<open>s.upper()\<close>.\<close>

definition lower :: "string \<Rightarrow> string" where
  "lower s = map lower_chr s"

definition upper :: "string \<Rightarrow> string" where
  "upper s = map upper_chr s"

text \<open>
  \<^verbatim>\<open>s.replace(old, new)\<close>: the occurrences of \<open>old\<close> are replaced from left to right
  without overlap. With an empty \<open>old\<close> Python puts \<open>new\<close> before every character and at
  the end.
\<close>

fun replace_ne :: "string \<Rightarrow> string \<Rightarrow> string \<Rightarrow> string" where
  "replace_ne old new [] = []"
| "replace_ne old new (c # cs) =
     (if old \<noteq> [] \<and> take (length old) (c # cs) = old
      then new @ replace_ne old new (drop (length old - 1) cs)
      else c # replace_ne old new cs)"

definition replace :: "string \<Rightarrow> string \<Rightarrow> string \<Rightarrow> string" where
  "replace old new s =
     (if old = [] then new @ concat (map (\<lambda>c. c # new) s) else replace_ne old new s)"

text \<open>
  \<^verbatim>\<open>s.split(sep)\<close> for a separator of one character, the only kind the program uses:
  the result always has at least one piece.
\<close>

fun split_chr :: "char \<Rightarrow> string \<Rightarrow> string list" where
  "split_chr sep [] = [[]]"
| "split_chr sep (c # cs) =
     (if c = sep then [] # split_chr sep cs
      else (case split_chr sep cs of p # ps \<Rightarrow> (c # p) # ps | [] \<Rightarrow> [[c]]))"

text \<open>\<^verbatim>\<open>s.strip(chars)\<close>: characters of \<open>chars\<close> are dropped at both ends.\<close>

definition strip :: "string \<Rightarrow> string \<Rightarrow> string" where
  "strip chars s =
     rev (dropWhile (\<lambda>c. c \<in> set chars) (rev (dropWhile (\<lambda>c. c \<in> set chars) s)))"

text \<open>\<^verbatim>\<open>sep.join(xs)\<close>.\<close>

fun join :: "string \<Rightarrow> string list \<Rightarrow> string" where
  "join sep [] = []"
| "join sep [x] = x"
| "join sep (x # y # ys) = x @ sep @ join sep (y # ys)"

text \<open>
  A \<^verbatim>\<open>dict\<close> (and an \<^verbatim>\<open>OrderedDict\<close>) is an association list in insertion order:
  assigning to a key that is present keeps its place, a new key goes to the end.
\<close>

type_synonym dict = "(string \<times> string) list"

fun set_item :: "dict \<Rightarrow> string \<Rightarrow> string \<Rightarrow> dict" where
  "set_item [] k v = [(k, v)]"
| "set_item (p # ps) k v = (if fst p = k then (k, v) # ps else p # set_item ps k v)"

text \<open>The exceptions the program can end with.\<close>

datatype exn =
    SystemExit int
  | CalledProcessError int "string list"
  | KeyError string
  | IndexError
  | FileNotFoundError string

text \<open>\<^verbatim>\<open>d[k]\<close> raises \<^verbatim>\<open>KeyError\<close> for a missing key; \<^verbatim>\<open>d.get(k, default)\<close> does not.\<close>

definition get_item :: "dict \<Rightarrow> string \<Rightarrow> exn + string" where
  "get_item d k = (case map_of d k of Some v \<Rightarrow> Inr v | None \<Rightarrow> Inl (KeyError k))"

definition dict_get :: "(string \<times> 'v) list \<Rightarrow> string \<Rightarrow> 'v \<Rightarrow> 'v" where
  "dict_get d k dflt = (case map_of d k of Some v \<Rightarrow> v | None \<Rightarrow> dflt)"

text \<open>Sequencing of computations that may raise.\<close>

definition and_then :: "exn + 'a \<Rightarrow> ('a \<Rightarrow> exn + 'b) \<Rightarrow> exn + 'b" where
  "and_then r f = (case r of Inl e \<Rightarrow> Inl e | Inr x \<Rightarrow> f x)"

section \<open>Metadata parser\<close>

text \<open>
  The text part of \<^verbatim>\<open>stat\<close> (lines 193 to 199): continuation lines are joined, tabs
  become spaces, the text is cut at newlines, every line is stripped of spaces at its two
  ends and the empty ones are dropped.
\<close>

definition stat_lines :: "string \<Rightarrow> string list" where
  "stat_lines raw =
     (let text = replace [TAB] '' '' (replace [BSLASH, NL] [] raw);
          lines = split_chr NL text
      in map (strip '' '') (filter (\<lambda>l. strip '' '' l \<noteq> []) lines))"

text \<open>
  The dictionary comprehension
  \<^verbatim>\<open>{l.split("=")[0].lower(): l.split("=")[1] for l in lines}\<close>:
  a line without \<^verbatim>\<open>=\<close> has no piece 1 and raises \<^verbatim>\<open>IndexError\<close>; a later line with
  the same key overwrites the value.
\<close>

fun stat_params :: "dict \<Rightarrow> string list \<Rightarrow> exn + dict" where
  "stat_params d [] = Inr d"
| "stat_params d (l # ls) =
     (case split_chr (CHR ''='') l of
        k # v # rest \<Rightarrow> stat_params (set_item d (lower k) v) ls
      | _ \<Rightarrow> Inl IndexError)"

definition parse_stat :: "string \<Rightarrow> exn + dict" where
  "parse_stat raw = stat_params [] (stat_lines raw)"

section \<open>Config formatter\<close>

text \<open>
  \<^verbatim>\<open>mk_conf_str\<close> takes the configuration and walks \<^verbatim>\<open>conf.items()\<close>, here the
  association list itself.
\<close>

definition mk_conf_str :: "dict \<Rightarrow> string" where
  "mk_conf_str conf =
     (let conf_str = join [NL] (map (\<lambda>(k, v). upper k @ '' = '' @ v) conf)
      in join [NL] [[], ''NUM_RUNS = 1'', [], ''BEGIN'', conf_str, ''END'', []])"

section \<open>Constants of the module\<close>

definition CVT_CMD :: string where
  "CVT_CMD = ''/home/erik/bin/heg/bin/resample''"

definition CVT_LOG_FILENAME :: string where
  "CVT_LOG_FILENAME = ''resample.log''"

definition STAT_CMD :: string where
  "STAT_CMD = ''/home/erik/bin/heg/bin/hegtool''"

definition STAT_OUT_FILENAME :: string where
  "STAT_OUT_FILENAME = ''HegHdr.hdr''"

definition STAT_LOG_FILENAME :: string where
  "STAT_LOG_FILENAME = ''hegtool.log''"

definition WARP_CMD :: string where
  "WARP_CMD = ''/usr/bin/gdalwarp''"

definition ENV :: dict where
  "ENV = [(''HEGUSER'', ''BOB''),
          (''MRTDATADIR'', ''/home/erik/bin/heg/data''),
          (''PGSHOME'', ''/home/erik/bin/heg/TOOLKIT_MTD'')]"

definition DEF_CONF :: dict where
  "DEF_CONF =
     [(''input_filename'', []),
      (''object_name'', []),
      (''field_name'', []),
      (''band_number'', ''1''),
      (''spatial_subset_ul_corner'', []),
      (''spatial_subset_lr_corner'', []),
      (''resampling_type'', ''BI''),
      (''output_projection_type'', ''GEO''),
      (''ellipsoid_code'', ''WGS84''),
      (''output_projection_parameters'',
         ''( 0.0 0.0 0.0 0.0 0.0 0.0 0.0 0.0 0.0 0.0 0.0 0.0 0.0 0.0 0.0  )''),
      (''output_filename'', []),
      (''output_type'', ''GEO'')]"

definition BANDS :: "(string \<times> dict) list" where
  "BANDS =
     [(''MOD13Q1'',
        [(''ndvi'', ''250m 16 days NDVI''),
         (''evi'', ''250m 16 days EVI''),
         (''vi-quality'', ''250m 16 days VI Quality''),
         (''red'', ''250m 16 days red reflectance''),
         (''nir'', ''250m 16 days NIR reflectance''),
         (''blue'', ''250m 16 days blue reflectance''),
         (''mir'', ''250m 16 days MIR reflectance''),
         (''day'', ''250m 16 days composite day of the year''),
         (''pix-rel'', ''250m 16 days pixel reliability'')]),
      (''MYD13Q1'',
        [(''ndvi'', ''250m 16 days NDVI''),
         (''evi'', ''250m 16 days EVI''),
         (''vi-quality'', ''250m 16 days VI Quality''),
         (''red'', ''250m 16 days red reflectance''),
         (''nir'', ''250m 16 days NIR reflectance''),
         (''blue'', ''250m 16 days blue reflectance''),
         (''mir'', ''250m 16 days MIR reflectance''),
         (''day'', ''250m 16 days composite day of the year''),
         (''pix-rel'', ''250m 16 days pixel reliability'')])]"

section \<open>Configuration assembly\<close>

text \<open>
  The field name of \<^verbatim>\<open>hdf_to_tif\<close> (line 227):
  \<^verbatim>\<open>BANDS.get(product, {}).get(band, band)\<close>.
\<close>

definition field_name_of :: "string \<Rightarrow> string \<Rightarrow> string" where
  "field_name_of product band = dict_get (dict_get BANDS product []) band band"

text \<open>
  The entry of the Product Band Table for a product and a band alias, when there is one:
  the table maps a product code to a mapping from alias to field name.
\<close>

definition band_entry :: "string \<Rightarrow> string \<Rightarrow> string option" where
  "band_entry product band =
     (case map_of BANDS product of None \<Rightarrow> None | Some table \<Rightarrow> map_of table band)"

text \<open>
  Lines 214 to 227 of \<^verbatim>\<open>hdf_to_tif\<close>: the default template is copied and the computed
  fields are assigned in the order of the source. Each \<^verbatim>\<open>params[...]\<close> raises
  \<^verbatim>\<open>KeyError\<close> when the stat mapping lacks the key.
\<close>

definition build_conf :: "dict \<Rightarrow> string \<Rightarrow> string \<Rightarrow> string \<Rightarrow> exn + dict" where
  "build_conf params inp_fp out_fp band =
     (let conf0 = DEF_CONF;
          conf1 = set_item conf0 ''input_filename'' inp_fp;
          conf2 = set_item conf1 ''output_filename'' out_fp
      in and_then (get_item params ''grid_ul_corner_latlon'') (\<lambda>ul.
         let conf3 = set_item conf2 ''spatial_subset_ul_corner'' (''( '' @ ul @ '' )'')
         in and_then (get_item params ''grid_lr_corner_latlon'') (\<lambda>lr.
            let conf4 = set_item conf3 ''spatial_subset_lr_corner'' (''( '' @ lr @ '' )'')
            in and_then (get_item params ''grid_names'') (\<lambda>names.
               let conf5 = set_item conf4 ''object_name'' (replace '','' [] names @ ''|'')
               in and_then (get_item params ''input_shortname'') (\<lambda>product.
                  Inr (set_item conf5 ''field_name'' (field_name_of product band)))))))"

section \<open>The process: files, environment, output and subprocesses\<close>

text \<open>
  The state of a run: the files the program and its tools see (path to content), the
  process environment, the lines the program itself has printed on standard output, and
  the subprocesses started so far, each with its argument vector, whether its standard
  output was captured (\<^verbatim>\<open>stdout=sp.PIPE\<close>) and its exit status.
\<close>

record call =
  argv :: "string list"
  captured :: bool
  status :: int

record state =
  files :: dict
  environ :: dict
  printed :: "string list"
  calls :: "call list"

text \<open>
  What lies outside the program: how a subprocess, given the environment, its argument
  vector and the files, exits and what files it leaves; the name \<^verbatim>\<open>tempfile.mktemp\<close>
  picks; the text \<^verbatim>\<open>oarg.describe_args\<close> prints.
\<close>

record world =
  run_proc :: "dict \<Rightarrow> string list \<Rightarrow> dict \<Rightarrow> int \<times> dict"
  mktemp :: "dict \<Rightarrow> string"
  help_text :: "string list"

type_synonym 'a prog = "state \<Rightarrow> (exn + 'a) \<times> state"

definition returnp :: "'a \<Rightarrow> 'a prog" where
  "returnp x s = (Inr x, s)"

definition liftp :: "exn + 'a \<Rightarrow> 'a prog" where
  "liftp r s = (r, s)"

definition bindp :: "'a prog \<Rightarrow> ('a \<Rightarrow> 'b prog) \<Rightarrow> 'b prog" where
  "bindp m f s = (case m s of (Inl e, s') \<Rightarrow> (Inl e, s') | (Inr x, s') \<Rightarrow> f x s')"

text \<open>\<^verbatim>\<open>os.path.isfile\<close>, \<^verbatim>\<open>os.remove\<close>, reading and writing a file, \<^verbatim>\<open>shutil.move\<close>.\<close>

definition isfile :: "dict \<Rightarrow> string \<Rightarrow> bool" where
  "isfile fs p = (map_of fs p \<noteq> None)"

definition os_remove :: "string \<Rightarrow> unit prog" where
  "os_remove p s =
     (if isfile (files s) p
      then (Inr (), s\<lparr>files := filter (\<lambda>q. fst q \<noteq> p) (files s)\<rparr>)
      else (Inl (FileNotFoundError p), s))"

definition remove_if_file :: "string \<Rightarrow> unit prog" where
  "remove_if_file p s = (if isfile (files s) p then os_remove p s else returnp () s)"

definition read_file :: "string \<Rightarrow> string prog" where
  "read_file p s =
     (case map_of (files s) p of
        Some content \<Rightarrow> (Inr content, s)
      | None \<Rightarrow> (Inl (FileNotFoundError p), s))"

definition write_file :: "string \<Rightarrow> string \<Rightarrow> unit prog" where
  "write_file p content s = (Inr (), s\<lparr>files := set_item (files s) p content\<rparr>)"

definition shutil_move :: "string \<Rightarrow> string \<Rightarrow> unit prog" where
  "shutil_move src dst s =
     (case map_of (files s) src of
        Some content \<Rightarrow>
          (Inr (), s\<lparr>files := set_item (filter (\<lambda>q. fst q \<noteq> src) (files s)) dst content\<rparr>)
      | None \<Rightarrow> (Inl (FileNotFoundError src), s))"

text \<open>
  \<^verbatim>\<open>glob.glob(prefix + "*")\<close> in the working directory: the star matches any run of
  characters other than the path separator.
\<close>

definition glob_prefix :: "string \<Rightarrow> dict \<Rightarrow> string list" where
  "glob_prefix pre fs =
     filter (\<lambda>p. take (length pre) p = pre \<and> CHR ''/'' \<notin> set p) (map fst fs)"

text \<open>
  \<^verbatim>\<open>sp.run(cmd, stdout=None if verbose else sp.PIPE, check=True)\<close>: the subprocess
  runs to its end; with \<^verbatim>\<open>check=True\<close> a status other than 0 raises
  \<^verbatim>\<open>CalledProcessError\<close>.
\<close>

definition sp_run :: "world \<Rightarrow> string list \<Rightarrow> bool \<Rightarrow> int prog" where
  "sp_run w cmd verbose s =
     (let (st, fs') = run_proc w (environ s) cmd (files s);
          s' = s\<lparr>files := fs',
                 calls := calls s @ [\<lparr>argv = cmd, captured = \<not> verbose, status = st\<rparr>]\<rparr>
      in if st \<noteq> 0 then (Inl (CalledProcessError st cmd), s') else (Inr st, s'))"

definition run_convert_cmd :: "world \<Rightarrow> string \<Rightarrow> bool \<Rightarrow> int prog" where
  "run_convert_cmd w params_fp verbose = sp_run w [CVT_CMD, ''-p'', params_fp] verbose"

definition run_stat_cmd :: "world \<Rightarrow> string \<Rightarrow> bool \<Rightarrow> int prog" where
  "run_stat_cmd w inp_fp verbose = sp_run w [STAT_CMD, ''-h'', inp_fp] verbose"

definition run_warp_cmd :: "world \<Rightarrow> string \<Rightarrow> string \<Rightarrow> string \<Rightarrow> bool \<Rightarrow> int prog" where
  "run_warp_cmd w inp_fp out_fp proj verbose =
     sp_run w [WARP_CMD, inp_fp, out_fp, ''-t_srs'', upper proj] verbose"

text \<open>\<^verbatim>\<open>print("error:", msg)\<close> and \<^verbatim>\<open>exit(code)\<close>.\<close>

definition error :: "string \<Rightarrow> int \<Rightarrow> unit prog" where
  "error msg code s = (Inl (SystemExit code), s\<lparr>printed := printed s @ [''error: '' @ msg]\<rparr>)"

text \<open>
  \<^verbatim>\<open>mk_conf_file\<close>: \<^verbatim>\<open>print(..., file=f)\<close> writes the text and a newline into a file
  named by \<^verbatim>\<open>tempfile.mktemp\<close>.
\<close>

definition mk_conf_file :: "world \<Rightarrow> dict \<Rightarrow> string prog" where
  "mk_conf_file w conf s =
     (let tmp_fp = mktemp w (files s)
      in bindp (write_file tmp_fp (mk_conf_str conf @ [NL])) (\<lambda>_. returnp tmp_fp) s)"

text \<open>
  \<^verbatim>\<open>stat\<close>: the tool runs, its log is deleted when there, its report is read and cut
  into lines, the report is deleted, and only then the lines become the mapping.
\<close>

definition stat :: "world \<Rightarrow> string \<Rightarrow> bool \<Rightarrow> dict prog" where
  "stat w inp_fp verbose =
     bindp (run_stat_cmd w inp_fp verbose) (\<lambda>_.
     bindp (remove_if_file STAT_LOG_FILENAME) (\<lambda>_.
     bindp (read_file STAT_OUT_FILENAME) (\<lambda>raw.
     bindp (os_remove STAT_OUT_FILENAME) (\<lambda>_.
     liftp (stat_params [] (stat_lines raw))))))"

text \<open>\<^verbatim>\<open>os.environ.update(ENV)\<close>.\<close>

definition environ_update :: "dict \<Rightarrow> unit prog" where
  "environ_update e s = (Inr (), s\<lparr>environ := fold (\<lambda>(k, v) d. set_item d k v) e (environ s)\<rparr>)"

text \<open>
  The clean-up loop of \<^verbatim>\<open>hdf_to_tif\<close> (lines 235 to 238): the list of paths is built
  first, then each path that is a file is removed.
\<close>

fun remove_all :: "string list \<Rightarrow> unit prog" where
  "remove_all [] = returnp ()"
| "remove_all (fp # fps) = bindp (remove_if_file fp) (\<lambda>_. remove_all fps)"

definition cleanup :: "string \<Rightarrow> string \<Rightarrow> unit prog" where
  "cleanup conf_fp out_fp s =
     remove_all ([CVT_LOG_FILENAME, conf_fp, out_fp @ ''.met'']
                 @ glob_prefix ''filetable.temp_'' (files s)
                 @ glob_prefix ''GetAttrtemp_'' (files s)) s"

text \<open>
  \<^verbatim>\<open>hdf_to_tif\<close> in its two parts: the conversion (lines 206 to 238) and the optional
  reprojection (lines 240 to 244).
\<close>

definition convert_part :: "world \<Rightarrow> string \<Rightarrow> string \<Rightarrow> string \<Rightarrow> bool \<Rightarrow> unit prog" where
  "convert_part w inp_fp out_fp band verbose =
     bindp (environ_update ENV) (\<lambda>_.
     bindp (stat w inp_fp verbose) (\<lambda>params.
     bindp (liftp (build_conf params inp_fp out_fp band)) (\<lambda>conf.
     bindp (mk_conf_file w conf) (\<lambda>conf_fp.
     bindp (run_convert_cmd w conf_fp verbose) (\<lambda>_.
     cleanup conf_fp out_fp)))))"

definition reproject_part :: "world \<Rightarrow> string \<Rightarrow> string \<Rightarrow> bool \<Rightarrow> unit prog" where
  "reproject_part w out_fp proj verbose s =
     (if proj \<noteq> []
      then (let tmp = mktemp w (files s)
            in bindp (run_warp_cmd w out_fp tmp proj verbose) (\<lambda>_. shutil_move tmp out_fp) s)
      else returnp () s)"

definition hdf_to_tif ::
  "world \<Rightarrow> string \<Rightarrow> string \<Rightarrow> string \<Rightarrow> string \<Rightarrow> bool \<Rightarrow> unit prog" where
  "hdf_to_tif w inp_fp out_fp band proj verbose =
     bindp (convert_part w inp_fp out_fp band verbose) (\<lambda>_.
     reproject_part w out_fp proj verbose)"

section \<open>Command line\<close>

text \<open>
  The options after \<^verbatim>\<open>oarg.parse()\<close>: for each one whether it was found on the command
  line and its value (the default when it was not).
\<close>

record args =
  inp_found :: bool
  inp_val :: string
  band_found :: bool
  band_val :: string
  out_found :: bool
  out_val :: string
  silence_val :: bool
  proj_val :: string
  hlp_val :: bool

text \<open>
  The output path of \<^verbatim>\<open>main\<close> when \<^verbatim>\<open>--output\<close> was not given (lines 267 to 270):
  \<^verbatim>\<open>val[-4:]\<close> is the last four characters, or the whole string when it is shorter.
\<close>

definition default_out_fp :: "string \<Rightarrow> string" where
  "default_out_fp val =
     (if \<not> lower (drop (length val - 4) val) = ''.hdf''
      then val @ ''.tif''
      else take (length val - 4) val @ ''.tif'')"

definition main :: "world \<Rightarrow> args \<Rightarrow> unit prog" where
  "main w a s =
     (if hlp_val a then (Inr (), s\<lparr>printed := printed s @ help_text w\<rparr>)
      else
        bindp (if \<not> inp_found a then error ''must provide input filepath (use --help)'' 1
               else returnp ()) (\<lambda>_.
        bindp (if \<not> band_found a then error ''must provide band (use --help)'' 1
               else returnp ()) (\<lambda>_.
        let out_fp = (if \<not> out_found a then default_out_fp (inp_val a) else out_val a)
        in hdf_to_tif w (inp_val a) out_fp (band_val a) (proj_val a) (\<not> silence_val a))) s)"

text \<open>
  The exit status of the interpreter: 0 when \<^verbatim>\<open>main\<close> returns, the code of
  \<^verbatim>\<open>SystemExit\<close>, and 1 for any other exception, which nothing in the program catches.
\<close>

fun exit_status :: "exn + unit \<Rightarrow> int" where
  "exit_status (Inr _) = 0"
| "exit_status (Inl (SystemExit code)) = code"
| "exit_status (Inl _) = 1"

section \<open>A sample run\<close>

text \<open>
  A concrete world for running the model: the stat tool leaves a header of unspaced
  \<^verbatim>\<open>KEY=VALUE\<close> lines and its log, the conversion tool leaves its log, the reprojection
  tool writes its output file; each exits with the status given.
\<close>

definition sample_header :: string where
  "sample_header =
     ''INPUT_SHORTNAME=MOD13Q1'' @ [NL] @
     ''GRID_NAMES=MODIS_Grid_16DAY_250m_500m_VI,'' @ [NL] @
     ''GRID_UL_CORNER_LATLON=0.0 -60.0'' @ [NL] @
     ''GRID_LR_CORNER_LATLON=-10.0 -50.0'' @ [NL]"

definition sample_world :: "int \<Rightarrow> int \<Rightarrow> int \<Rightarrow> world" where
  "sample_world st_stat st_cvt st_warp =
     \<lparr>run_proc = (\<lambda>env cmd fs.
        if hd cmd = STAT_CMD
        then (st_stat, set_item (set_item fs STAT_OUT_FILENAME sample_header)
                         STAT_LOG_FILENAME ''log'')
        else if hd cmd = CVT_CMD then (st_cvt, set_item fs CVT_LOG_FILENAME ''log'')
        else (st_warp, set_item fs (cmd ! 2) ''raster'')),
      mktemp = (\<lambda>fs. if isfile fs ''/tmp/tmpa'' then ''/tmp/tmpb'' else ''/tmp/tmpa''),
      help_text = [''options:'']\<rparr>"

definition sample_args :: "bool \<Rightarrow> bool \<Rightarrow> string \<Rightarrow> args" where
  "sample_args hlp band_given proj =
     \<lparr>inp_found = True, inp_val = ''scene.HDF'',
      band_found = band_given, band_val = (if band_given then ''evi'' else []),
      out_found = False, out_val = [],
      silence_val = False, proj_val = proj, hlp_val = hlp\<rparr>"

definition sample_start :: state where
  "sample_start = \<lparr>files = [(''scene.HDF'', ''hdf'')], environ = [], printed = [], calls = []\<rparr>"

section \<open>Subprocess traces\<close>

text \<open>
  What a piece of the program adds to the list of subprocesses: it prints nothing, every
  subprocess it starts satisfies \<open>P\<close>, and either all of them exit with status 0 or the
  last one started is the only one that does not, and the piece ends with the
  \<^verbatim>\<open>CalledProcessError\<close> of that one.
\<close>

definition clean :: "call list \<Rightarrow> bool" where
  "clean cs \<longleftrightarrow> (\<forall>c \<in> set cs. status c = 0)"

definition trace_ok :: "(call \<Rightarrow> bool) \<Rightarrow> call list \<Rightarrow> exn + 'a \<Rightarrow> bool" where
  "trace_ok P new r \<longleftrightarrow>
     (\<forall>c \<in> set new. P c) \<and>
     (clean new \<or>
      (\<exists>pre c. new = pre @ [c] \<and> clean pre \<and> status c \<noteq> 0 \<and>
         r = Inl (CalledProcessError (status c) (argv c))))"

definition fail_stop :: "(call \<Rightarrow> bool) \<Rightarrow> 'a prog \<Rightarrow> bool" where
  "fail_stop P m \<longleftrightarrow>
     (\<forall>s r s'. m s = (r, s') \<longrightarrow>
        printed s' = printed s \<and> (\<exists>new. calls s' = calls s @ new \<and> trace_ok P new r))"

section \<open>Properties\<close>

lemmas str_defs = NL_def TAB_def BSLASH_def lower_def upper_def lower_chr_def upper_chr_def
  lower_letters_def upper_letters_def replace_def strip_def

subsection \<open>Metadata parser\<close>

text \<open>
  C1, as the claim states it, fails: on the text \<^verbatim>\<open>"A = 1\nB = 2\n"\<close> the parser does
  not return the mapping from \<^verbatim>\<open>"a"\<close> to \<^verbatim>\<open>"1"\<close> and from \<^verbatim>\<open>"b"\<close> to \<^verbatim>\<open>"2"\<close>;
  looking up \<^verbatim>\<open>"a"\<close> in its result raises \<^verbatim>\<open>KeyError\<close>.
\<close>

theorem C1_trimmed_mapping_refuted:
  "parse_stat (''A = 1'' @ [NL] @ ''B = 2'' @ [NL]) \<noteq> Inr [(''a'', ''1''), (''b'', ''2'')]
   \<and> and_then (parse_stat (''A = 1'' @ [NL] @ ''B = 2'' @ [NL])) (\<lambda>d. get_item d ''a'')
       = Inl (KeyError ''a'')"
  by (simp add: parse_stat_def stat_lines_def str_defs and_then_def get_item_def)

text \<open>
  C1, amended: on the text \<^verbatim>\<open>"A = 1\nB = 2\n"\<close> the parser returns the mapping from
  \<^verbatim>\<open>"a "\<close> to \<^verbatim>\<open>" 1"\<close> and from \<^verbatim>\<open>"b "\<close> to \<^verbatim>\<open>" 2"\<close>, in this order: the keys are
  lower-cased, spaces are trimmed at the two ends of each line only, and the spaces next
  to the \<^verbatim>\<open>=\<close> stay in the key and in the value.
\<close>

theorem C1_parse_normalized:
  "parse_stat (''A = 1'' @ [NL] @ ''B = 2'' @ [NL]) = Inr [(''a '', '' 1''), (''b '', '' 2'')]"
  by (simp add: parse_stat_def stat_lines_def str_defs)

text \<open>
  C3: the claim asks for the whole text after the first \<^verbatim>\<open>=\<close> as the value. On the line
  \<^verbatim>\<open>"A = B=C"\<close> the parser cuts at every \<^verbatim>\<open>=\<close> and keeps piece 1 only: the value is
  \<^verbatim>\<open>" B"\<close> and the rest of the line, \<^verbatim>\<open>"=C"\<close>, is lost.
\<close>

theorem C3_value_cut_at_second_equals:
  "parse_stat ''A = B=C'' = Inr [(''a '', '' B'')]"
  by (simp add: parse_stat_def stat_lines_def str_defs)

text \<open>
  C8, as the claim states it, fails: on \<^verbatim>\<open>"A = fo\\\no\nB = 2"\<close> the parser does not
  return the mapping from \<^verbatim>\<open>"a"\<close> to \<^verbatim>\<open>"foo"\<close> and from \<^verbatim>\<open>"b"\<close> to \<^verbatim>\<open>"2"\<close>;
  looking up \<^verbatim>\<open>"b"\<close> in its result raises \<^verbatim>\<open>KeyError\<close>.
\<close>

theorem C8_trimmed_mapping_refuted:
  "parse_stat (''A = fo'' @ [BSLASH, NL] @ ''o'' @ [NL] @ ''B = 2'')
     \<noteq> Inr [(''a'', ''foo''), (''b'', ''2'')]
   \<and> and_then (parse_stat (''A = fo'' @ [BSLASH, NL] @ ''o'' @ [NL] @ ''B = 2''))
        (\<lambda>d. get_item d ''b'') = Inl (KeyError ''b'')"
  by (simp add: parse_stat_def stat_lines_def str_defs and_then_def get_item_def)

text \<open>
  C8, amended: the backslash-newline inside the first value is removed, so that
  \<^verbatim>\<open>"A = fo\\\no\nB = 2"\<close> parses to the mapping from \<^verbatim>\<open>"a "\<close> to \<^verbatim>\<open>" foo"\<close> and from
  \<^verbatim>\<open>"b "\<close> to \<^verbatim>\<open>" 2"\<close>; the spaces next to the \<^verbatim>\<open>=\<close> stay.
\<close>

theorem C8_parse_continuation:
  "parse_stat (''A = fo'' @ [BSLASH, NL] @ ''o'' @ [NL] @ ''B = 2'')
     = Inr [(''a '', '' foo''), (''b '', '' 2'')]"
  by (simp add: parse_stat_def stat_lines_def str_defs)

subsection \<open>Config formatter\<close>

lemma split_chr_nonempty: "split_chr sep s \<noteq> []"
  by (induction s) (auto split: list.splits)

lemma split_chr_no_sep: "sep \<notin> set l \<Longrightarrow> split_chr sep l = [l]"
  by (induction l) auto

lemma split_chr_append: "split_chr sep (a @ sep # b) = split_chr sep a @ split_chr sep b"
proof (induction a)
  case Nil
  show ?case by simp
next
  case (Cons x a)
  show ?case
  proof (cases "x = sep")
    case True
    with Cons show ?thesis by simp
  next
    case False
    with Cons show ?thesis
      using split_chr_nonempty [of sep a] by (cases "split_chr sep a") simp_all
  qed
qed

lemma split_chr_join_concat:
  "ls \<noteq> [] \<Longrightarrow> split_chr sep (join [sep] ls) = concat (map (split_chr sep) ls)"
proof (induction "[sep]" ls rule: join.induct)
  case 1
  then show ?case by simp
next
  case (2 x)
  then show ?case by simp
next
  case (3 x y ys)
  then show ?case by (simp add: split_chr_append)
qed

lemma split_chr_join:
  assumes "ls \<noteq> []" and "\<forall>l \<in> set ls. sep \<notin> set l"
  shows "split_chr sep (join [sep] ls) = ls"
proof -
  have "concat (map (split_chr sep) ls) = concat (map (\<lambda>l. [l]) ls)"
    using assms(2) by (intro arg_cong [where f = concat] map_cong) (simp_all add: split_chr_no_sep)
  also have "\<dots> = ls" by (induction ls) simp_all
  finally show ?thesis using assms(1) by (simp add: split_chr_join_concat)
qed

lemma upper_chr_NL: "upper_chr c = NL \<Longrightarrow> c = NL"
proof (cases "map_of (zip lower_letters upper_letters) c")
  case None
  assume "upper_chr c = NL"
  with None show ?thesis by (simp add: upper_chr_def)
next
  case (Some d)
  assume u: "upper_chr c = NL"
  from Some have "(c, d) \<in> set (zip lower_letters upper_letters)" by (rule map_of_SomeD)
  then have "d \<in> set upper_letters" by (rule set_zip_rightD)
  then have "d \<noteq> NL" by (auto simp: upper_letters_def NL_def)
  with Some u show ?thesis by (simp add: upper_chr_def)
qed

lemma upper_no_NL: "NL \<notin> set k \<Longrightarrow> NL \<notin> set (upper k)"
  by (auto simp: upper_def dest: upper_chr_NL [OF sym])

lemma mk_conf_str_lines:
  "split_chr NL (mk_conf_str conf) =
     [[], ''NUM_RUNS = 1'', [], ''BEGIN'']
     @ split_chr NL (join [NL] (map (\<lambda>(k, v). upper k @ '' = '' @ v) conf))
     @ [''END'', []]"
proof -
  have a: "split_chr NL ''NUM_RUNS = 1'' = [''NUM_RUNS = 1'']"
    by (rule split_chr_no_sep) (simp add: NL_def)
  have b: "split_chr NL ''BEGIN'' = [''BEGIN'']"
    by (rule split_chr_no_sep) (simp add: NL_def)
  have c: "split_chr NL ''END'' = [''END'']"
    by (rule split_chr_no_sep) (simp add: NL_def)
  show ?thesis
    unfolding mk_conf_str_def Let_def
    by (subst split_chr_join_concat) (simp_all del: split_chr.simps add: a b c split_chr.simps(1))
qed

text \<open>
  C4, as the claim states it, fails: a value is written verbatim, so a value with a
  newline in it spreads over several lines. The mapping from \<^verbatim>\<open>"a"\<close> to
  \<^verbatim>\<open>"1\nB = 2"\<close> has one key, and two lines of the form \<^verbatim>\<open>KEY = VALUE\<close> stand
  between \<^verbatim>\<open>BEGIN\<close> and \<^verbatim>\<open>END\<close>.
\<close>

theorem C4_newline_value_counterexample:
  "length [(''a'', ''1'' @ [NL] @ ''B = 2'')] = 1
   \<and> split_chr NL (mk_conf_str [(''a'', ''1'' @ [NL] @ ''B = 2'')]) =
     [[], ''NUM_RUNS = 1'', [], ''BEGIN'', ''A = 1'', ''B = 2'', ''END'', []]"
  by (simp add: mk_conf_str_def str_defs)

text \<open>
  C4, amended: for every ordered configuration mapping with N keys, none of whose keys and
  values contains a newline, the lines of the output are: an empty line, \<^verbatim>\<open>NUM_RUNS = 1\<close>,
  an empty line, \<^verbatim>\<open>BEGIN\<close>, then exactly the N lines \<^verbatim>\<open>KEY = VALUE\<close> (keys
  upper-cased, values verbatim, in the order of the mapping), then \<^verbatim>\<open>END\<close> and the empty
  piece after the last newline. With no key, one empty line stands between \<^verbatim>\<open>BEGIN\<close> and
  \<^verbatim>\<open>END\<close>.
\<close>

theorem C4_config_lines:
  assumes "\<forall>(k, v) \<in> set conf. NL \<notin> set k \<and> NL \<notin> set v"
  shows "split_chr NL (mk_conf_str conf) =
     [[], ''NUM_RUNS = 1'', [], ''BEGIN'']
     @ (if conf = [] then [[]] else map (\<lambda>(k, v). upper k @ '' = '' @ v) conf)
     @ [''END'', []]"
proof (cases "conf = []")
  case True
  then show ?thesis by (simp add: mk_conf_str_lines)
next
  case False
  have "\<forall>l \<in> set (map (\<lambda>(k, v). upper k @ '' = '' @ v) conf). NL \<notin> set l"
    using assms by (auto simp: NL_def dest: upper_no_NL [unfolded NL_def])
  with False have "split_chr NL (join [NL] (map (\<lambda>(k, v). upper k @ '' = '' @ v) conf))
      = map (\<lambda>(k, v). upper k @ '' = '' @ v) conf"
    by (intro split_chr_join) simp_all
  with False show ?thesis by (simp add: mk_conf_str_lines)
qed

text \<open>
  A run of C4 on a mapping with two keys, in an order that is not alphabetical.
\<close>

theorem C4_config_lines_witness:
  "split_chr NL (mk_conf_str [(''b'', ''x y''), (''a'', ''1'')]) =
     [[], ''NUM_RUNS = 1'', [], ''BEGIN'', ''B = x y'', ''A = 1'', ''END'', []]"
proof -
  have h: "\<forall>(k, v) \<in> set [(''b'', ''x y''), (''a'', ''1'')]. NL \<notin> set k \<and> NL \<notin> set v"
    by (simp add: NL_def)
  have u: "upper ''b'' = ''B''" "upper ''a'' = ''A''"
    by (simp_all add: str_defs)
  show ?thesis
    using C4_config_lines [OF h] by (simp add: u)
qed

subsection \<open>Output path\<close>

lemma lower_length: "length (lower s) = length s"
  by (simp add: lower_def)

text \<open>
  C5: when \<^verbatim>\<open>main\<close> gets past the help flag and the two required arguments and no
  explicit output path was found on the command line, it runs \<^verbatim>\<open>hdf_to_tif\<close> with the
  output path derived from the input path. The derived path: an input path that ends in
  \<^verbatim>\<open>.hdf\<close> in any mix of cases has these four characters replaced by \<^verbatim>\<open>.tif\<close>; an
  input path with no such ending gets \<^verbatim>\<open>.tif\<close> appended. \<^verbatim>\<open>"scene.hdf"\<close> gives
  \<^verbatim>\<open>"scene.tif"\<close> and \<^verbatim>\<open>"scene.dat"\<close> gives \<^verbatim>\<open>"scene.dat.tif"\<close>.
\<close>

theorem C5_default_output_path:
  "(\<not> hlp_val a \<and> inp_found a \<and> band_found a \<and> \<not> out_found a \<longrightarrow>
      main w a s =
        hdf_to_tif w (inp_val a) (default_out_fp (inp_val a)) (band_val a) (proj_val a)
          (\<not> silence_val a) s)
   \<and> (lower ext = ''.hdf'' \<longrightarrow> default_out_fp (stem @ ext) = stem @ ''.tif'')
   \<and> ((\<forall>a b. p = a @ b \<longrightarrow> lower b \<noteq> ''.hdf'') \<longrightarrow> default_out_fp p = p @ ''.tif'')
   \<and> default_out_fp ''scene.hdf'' = ''scene.tif''
   \<and> default_out_fp ''scene.dat'' = ''scene.dat.tif''"
proof (intro conjI impI)
  assume "\<not> hlp_val a \<and> inp_found a \<and> band_found a \<and> \<not> out_found a"
  then show "main w a s =
        hdf_to_tif w (inp_val a) (default_out_fp (inp_val a)) (band_val a) (proj_val a)
          (\<not> silence_val a) s"
    by (simp add: main_def bindp_def returnp_def)
next
  assume e: "lower ext = ''.hdf''"
  have "length (lower ext) = 4" by (simp add: e)
  then have "length ext = 4" by (simp add: lower_length)
  then show "default_out_fp (stem @ ext) = stem @ ''.tif''"
    using e by (simp add: default_out_fp_def)
next
  assume n: "\<forall>a b. p = a @ b \<longrightarrow> lower b \<noteq> ''.hdf''"
  have "p = take (length p - 4) p @ drop (length p - 4) p" by simp
  with n have "lower (drop (length p - 4) p) \<noteq> ''.hdf''" by blast
  then show "default_out_fp p = p @ ''.tif''" by (simp add: default_out_fp_def)
next
  show "default_out_fp ''scene.hdf'' = ''scene.tif''"
    by (simp add: default_out_fp_def str_defs)
next
  show "default_out_fp ''scene.dat'' = ''scene.dat.tif''"
    by (simp add: default_out_fp_def str_defs)
qed

text \<open>
  A run of C5: the sample command line gives no output path and the input
  \<^verbatim>\<open>"scene.HDF"\<close>, so the pipeline runs with the output path \<^verbatim>\<open>"scene.tif"\<close>; a path
  shorter than four characters gets \<^verbatim>\<open>.tif\<close> appended.
\<close>

theorem C5_default_output_path_witness:
  "main (sample_world 0 0 0) (sample_args False True []) sample_start =
     hdf_to_tif (sample_world 0 0 0) ''scene.HDF'' ''scene.tif'' ''evi'' [] True sample_start
   \<and> default_out_fp (''scene'' @ ''.HDF'') = ''scene'' @ ''.tif''
   \<and> default_out_fp ''a.h'' = ''a.h'' @ ''.tif''"
proof -
  have h1: "lower ''.HDF'' = ''.hdf''" by (simp add: str_defs)
  have h2: "\<forall>a b. ''a.h'' = a @ b \<longrightarrow> lower b \<noteq> ''.hdf''"
  proof (intro allI impI notI)
    fix a b :: string
    assume ab: "''a.h'' = a @ b" and l: "lower b = ''.hdf''"
    have "length (lower b) = 4" by (simp add: l)
    then have "length b = 4" by (simp add: lower_length)
    moreover have "length (a @ b) = 3" using ab [symmetric] by simp
    ultimately show False by simp
  qed
  note t = C5_default_output_path [where ext = "''.HDF''" and stem = "''scene''"
      and p = "''a.h''" and a = "sample_args False True []" and w = "sample_world 0 0 0"
      and s = sample_start]
  from t h1 have d: "default_out_fp (''scene'' @ ''.HDF'') = ''scene'' @ ''.tif''" by blast
  from t h2 have d2: "default_out_fp ''a.h'' = ''a.h'' @ ''.tif''" by blast
  have g: "\<not> hlp_val (sample_args False True []) \<and> inp_found (sample_args False True [])
      \<and> band_found (sample_args False True []) \<and> \<not> out_found (sample_args False True [])"
    by (simp add: sample_args_def)
  from t g have "main (sample_world 0 0 0) (sample_args False True []) sample_start =
      hdf_to_tif (sample_world 0 0 0) (inp_val (sample_args False True []))
        (default_out_fp (inp_val (sample_args False True [])))
        (band_val (sample_args False True [])) (proj_val (sample_args False True []))
        (\<not> silence_val (sample_args False True [])) sample_start"
    by blast
  moreover have "inp_val (sample_args False True []) = ''scene'' @ ''.HDF''"
    and "band_val (sample_args False True []) = ''evi''"
    and "proj_val (sample_args False True []) = []"
    and "\<not> silence_val (sample_args False True [])"
    by (simp_all add: sample_args_def)
  ultimately have "main (sample_world 0 0 0) (sample_args False True []) sample_start =
     hdf_to_tif (sample_world 0 0 0) ''scene.HDF'' ''scene.tif'' ''evi'' [] True sample_start"
    using d by simp
  with d d2 show ?thesis by blast
qed

subsection \<open>Band resolution and configuration assembly\<close>

lemma field_name_of_entry:
  "field_name_of product band = (case band_entry product band of Some f \<Rightarrow> f | None \<Rightarrow> band)"
  by (simp add: field_name_of_def dict_get_def band_entry_def split: option.splits)

lemma build_conf_field_name:
  assumes "map_of params ''grid_ul_corner_latlon'' = Some ul"
    and "map_of params ''grid_lr_corner_latlon'' = Some lr"
    and "map_of params ''grid_names'' = Some names"
    and "map_of params ''input_shortname'' = Some product"
  shows "and_then (build_conf params inp_fp out_fp band) (\<lambda>conf. get_item conf ''field_name'')
           = Inr (field_name_of product band)"
  using assms by (simp add: build_conf_def and_then_def get_item_def DEF_CONF_def)

text \<open>
  C6: for every stat mapping that has the fields the configuration needs, with product
  code \<open>product\<close> in its shortname field, and for every band alias, the \<^verbatim>\<open>field_name\<close> of
  the assembled configuration is the entry of the Product Band Table for the product and
  the alias when there is one, and the alias itself, unchanged, otherwise. With product
  \<^verbatim>\<open>"MOD13Q1"\<close> the alias \<^verbatim>\<open>"ndvi"\<close> gives \<^verbatim>\<open>"250m 16 days NDVI"\<close>; the alias
  \<^verbatim>\<open>"foo"\<close>, which no product knows, gives \<^verbatim>\<open>"foo"\<close>.
\<close>

theorem C6_band_resolution:
  "(map_of params ''grid_ul_corner_latlon'' = Some ul \<and>
    map_of params ''grid_lr_corner_latlon'' = Some lr \<and>
    map_of params ''grid_names'' = Some names \<and>
    map_of params ''input_shortname'' = Some product \<longrightarrow>
      and_then (build_conf params inp_fp out_fp band) (\<lambda>conf. get_item conf ''field_name'')
        = Inr (case band_entry product band of Some f \<Rightarrow> f | None \<Rightarrow> band)
      \<and> (product = ''MOD13Q1'' \<longrightarrow>
           and_then (build_conf params inp_fp out_fp ''ndvi'')
             (\<lambda>conf. get_item conf ''field_name'') = Inr ''250m 16 days NDVI'')
      \<and> and_then (build_conf params inp_fp out_fp ''foo'')
           (\<lambda>conf. get_item conf ''field_name'') = Inr ''foo'')
   \<and> (\<forall>f. band_entry product band = Some f \<longrightarrow> field_name_of product band = f)
   \<and> (band_entry product band = None \<longrightarrow> field_name_of product band = band)
   \<and> field_name_of ''MOD13Q1'' ''ndvi'' = ''250m 16 days NDVI''
   \<and> field_name_of product ''foo'' = ''foo''"
proof -
  have ndvi: "field_name_of ''MOD13Q1'' ''ndvi'' = ''250m 16 days NDVI''"
    by (simp add: field_name_of_def dict_get_def BANDS_def)
  have foo: "field_name_of product ''foo'' = ''foo''"
    by (simp add: field_name_of_def dict_get_def BANDS_def)
  have some: "\<forall>f. band_entry product band = Some f \<longrightarrow> field_name_of product band = f"
    by (simp add: field_name_of_entry)
  have none: "band_entry product band = None \<longrightarrow> field_name_of product band = band"
    by (simp add: field_name_of_entry)
  have conf: "map_of params ''grid_ul_corner_latlon'' = Some ul \<and>
    map_of params ''grid_lr_corner_latlon'' = Some lr \<and>
    map_of params ''grid_names'' = Some names \<and>
    map_of params ''input_shortname'' = Some product \<longrightarrow>
      and_then (build_conf params inp_fp out_fp band) (\<lambda>conf. get_item conf ''field_name'')
        = Inr (case band_entry product band of Some f \<Rightarrow> f | None \<Rightarrow> band)
      \<and> (product = ''MOD13Q1'' \<longrightarrow>
           and_then (build_conf params inp_fp out_fp ''ndvi'')
             (\<lambda>conf. get_item conf ''field_name'') = Inr ''250m 16 days NDVI'')
      \<and> and_then (build_conf params inp_fp out_fp ''foo'')
           (\<lambda>conf. get_item conf ''field_name'') = Inr ''foo''"
  proof (intro impI, elim conjE, intro conjI impI)
    assume k: "map_of params ''grid_ul_corner_latlon'' = Some ul"
      "map_of params ''grid_lr_corner_latlon'' = Some lr"
      "map_of params ''grid_names'' = Some names"
      "map_of params ''input_shortname'' = Some product"
    show "and_then (build_conf params inp_fp out_fp band) (\<lambda>conf. get_item conf ''field_name'')
        = Inr (case band_entry product band of Some f \<Rightarrow> f | None \<Rightarrow> band)"
      using build_conf_field_name [OF k] by (simp add: field_name_of_entry)
    show "and_then (build_conf params inp_fp out_fp ''foo'')
           (\<lambda>conf. get_item conf ''field_name'') = Inr ''foo''"
      using build_conf_field_name [OF k] by (simp add: foo)
    assume "product = ''MOD13Q1''"
    with build_conf_field_name [OF k]
    show "and_then (build_conf params inp_fp out_fp ''ndvi'')
             (\<lambda>conf. get_item conf ''field_name'') = Inr ''250m 16 days NDVI''"
      by (simp add: ndvi)
  qed
  from conf some none ndvi foo show ?thesis by (intro conjI)
qed

text \<open>
  A run of C6: a stat mapping of the second product with the alias \<^verbatim>\<open>"red"\<close>, which the
  table has, and the same alias with a product the table does not have.
\<close>

theorem C6_band_resolution_witness:
  "and_then (build_conf [(''grid_ul_corner_latlon'', ''1 2''), (''grid_lr_corner_latlon'', ''3 4''),
        (''grid_names'', ''G,''), (''input_shortname'', ''MYD13Q1'')] ''i.hdf'' ''o.tif'' ''red'')
      (\<lambda>conf. get_item conf ''field_name'') = Inr ''250m 16 days red reflectance''
   \<and> field_name_of ''MYD13Q1'' ''red'' = ''250m 16 days red reflectance''
   \<and> field_name_of ''MOD09A1'' ''red'' = ''red''"
proof -
  have h1: "band_entry ''MYD13Q1'' ''red'' = Some ''250m 16 days red reflectance''"
    by (simp add: band_entry_def BANDS_def)
  have h2: "band_entry ''MOD09A1'' ''red'' = None"
    by (simp add: band_entry_def BANDS_def)
  have k: "map_of [(''grid_ul_corner_latlon'', ''1 2''), (''grid_lr_corner_latlon'', ''3 4''),
        (''grid_names'', ''G,''), (''input_shortname'', ''MYD13Q1'')] ''grid_ul_corner_latlon''
          = Some ''1 2'' \<and>
      map_of [(''grid_ul_corner_latlon'', ''1 2''), (''grid_lr_corner_latlon'', ''3 4''),
        (''grid_names'', ''G,''), (''input_shortname'', ''MYD13Q1'')] ''grid_lr_corner_latlon''
          = Some ''3 4'' \<and>
      map_of [(''grid_ul_corner_latlon'', ''1 2''), (''grid_lr_corner_latlon'', ''3 4''),
        (''grid_names'', ''G,''), (''input_shortname'', ''MYD13Q1'')] ''grid_names''
          = Some ''G,'' \<and>
      map_of [(''grid_ul_corner_latlon'', ''1 2''), (''grid_lr_corner_latlon'', ''3 4''),
        (''grid_names'', ''G,''), (''input_shortname'', ''MYD13Q1'')] ''input_shortname''
          = Some ''MYD13Q1''"
    by simp
  note t = C6_band_resolution [where params = "[(''grid_ul_corner_latlon'', ''1 2''),
        (''grid_lr_corner_latlon'', ''3 4''), (''grid_names'', ''G,''),
        (''input_shortname'', ''MYD13Q1'')]" and ul = "''1 2''" and lr = "''3 4''"
      and names = "''G,''" and product = "''MYD13Q1''" and band = "''red''"
      and inp_fp = "''i.hdf''" and out_fp = "''o.tif''"]
  from t k have "and_then (build_conf [(''grid_ul_corner_latlon'', ''1 2''),
        (''grid_lr_corner_latlon'', ''3 4''), (''grid_names'', ''G,''),
        (''input_shortname'', ''MYD13Q1'')] ''i.hdf'' ''o.tif'' ''red'')
      (\<lambda>conf. get_item conf ''field_name'')
      = Inr (case band_entry ''MYD13Q1'' ''red'' of Some f \<Rightarrow> f | None \<Rightarrow> ''red'')"
    by blast
  then have c: "and_then (build_conf [(''grid_ul_corner_latlon'', ''1 2''),
        (''grid_lr_corner_latlon'', ''3 4''), (''grid_names'', ''G,''),
        (''input_shortname'', ''MYD13Q1'')] ''i.hdf'' ''o.tif'' ''red'')
      (\<lambda>conf. get_item conf ''field_name'') = Inr ''250m 16 days red reflectance''"
    by (simp add: h1)
  from t h1 have a: "field_name_of ''MYD13Q1'' ''red'' = ''250m 16 days red reflectance''"
    by blast
  from C6_band_resolution [where product = "''MOD09A1''" and band = "''red''"] h2
  have b: "field_name_of ''MOD09A1'' ''red'' = ''red''" by blast
  from c a b show ?thesis by (intro conjI)
qed

lemma replace_ne_single: "replace_ne [x] [] s = filter (\<lambda>c. c \<noteq> x) s"
  by (induction s) auto

lemma replace_comma: "replace '','' [] s = filter (\<lambda>c. c \<noteq> CHR '','') s"
  by (simp add: replace_def replace_ne_single)

text \<open>
  C7: from a stat mapping with the two grid corner fields, the grid-name field and the
  product shortname \<^verbatim>\<open>"MOD13Q1"\<close>, and the band alias \<^verbatim>\<open>"evi"\<close>, the configuration is
  assembled without error; its \<^verbatim>\<open>field_name\<close> is \<^verbatim>\<open>"250m 16 days EVI"\<close> and its
  \<^verbatim>\<open>object_name\<close> is the grid name with every comma removed and one \<^verbatim>\<open>|\<close> appended.
\<close>

theorem C7_assembled_configuration:
  assumes "map_of params ''grid_ul_corner_latlon'' = Some ul"
    and "map_of params ''grid_lr_corner_latlon'' = Some lr"
    and "map_of params ''grid_names'' = Some names"
    and "map_of params ''input_shortname'' = Some ''MOD13Q1''"
  shows "and_then (build_conf params inp_fp out_fp ''evi'') (\<lambda>conf. get_item conf ''field_name'')
           = Inr ''250m 16 days EVI''
       \<and> and_then (build_conf params inp_fp out_fp ''evi'') (\<lambda>conf. get_item conf ''object_name'')
           = Inr (filter (\<lambda>c. c \<noteq> CHR '','') names @ ''|'')"
  using assms
  by (simp add: build_conf_def and_then_def get_item_def DEF_CONF_def field_name_of_def
      dict_get_def BANDS_def replace_comma)

text \<open>
  A run of C7 on a stat mapping whose grid name has two commas.
\<close>

theorem C7_assembled_configuration_witness:
  "and_then (build_conf [(''grid_ul_corner_latlon'', ''1 2''), (''grid_lr_corner_latlon'', ''3 4''),
        (''grid_names'', ''G,H,''), (''input_shortname'', ''MOD13Q1'')] ''i.hdf'' ''o.tif'' ''evi'')
      (\<lambda>conf. get_item conf ''field_name'') = Inr ''250m 16 days EVI''
   \<and> and_then (build_conf [(''grid_ul_corner_latlon'', ''1 2''), (''grid_lr_corner_latlon'', ''3 4''),
        (''grid_names'', ''G,H,''), (''input_shortname'', ''MOD13Q1'')] ''i.hdf'' ''o.tif'' ''evi'')
      (\<lambda>conf. get_item conf ''object_name'') = Inr ''GH|''"
  using C7_assembled_configuration [of
      "[(''grid_ul_corner_latlon'', ''1 2''), (''grid_lr_corner_latlon'', ''3 4''),
        (''grid_names'', ''G,H,''), (''input_shortname'', ''MOD13Q1'')]"
      "''1 2''" "''3 4''" "''G,H,''" "''i.hdf''" "''o.tif''"]
  by simp

subsection \<open>Subprocess traces\<close>

lemma trace_ok_Nil: "trace_ok P [] r"
  by (simp add: trace_ok_def clean_def)

lemma trace_ok_append:
  assumes a: "trace_ok P new1 (Inr x)" and b: "trace_ok P new2 r"
  shows "trace_ok P (new1 @ new2) r"
proof -
  from a have P1: "\<forall>c \<in> set new1. P c" and c1: "clean new1"
    by (simp_all add: trace_ok_def)
  from b have P2: "\<forall>c \<in> set new2. P c" by (simp add: trace_ok_def)
  from P1 P2 have P12: "\<forall>c \<in> set (new1 @ new2). P c" by auto
  from b have "clean new2 \<or>
      (\<exists>pre c. new2 = pre @ [c] \<and> clean pre \<and> status c \<noteq> 0 \<and>
         r = Inl (CalledProcessError (status c) (argv c)))"
    by (simp add: trace_ok_def)
  then show ?thesis
  proof
    assume "clean new2"
    with c1 have "clean (new1 @ new2)" by (auto simp: clean_def)
    with P12 show ?thesis by (simp add: trace_ok_def)
  next
    assume "\<exists>pre c. new2 = pre @ [c] \<and> clean pre \<and> status c \<noteq> 0 \<and>
         r = Inl (CalledProcessError (status c) (argv c))"
    then obtain pre c where n2: "new2 = pre @ [c]" and cp: "clean pre"
      and sc: "status c \<noteq> 0" and rr: "r = Inl (CalledProcessError (status c) (argv c))"
      by blast
    from c1 cp have cl: "clean (new1 @ pre)" by (auto simp: clean_def)
    from n2 have eq: "new1 @ new2 = (new1 @ pre) @ [c]" by simp
    have "\<exists>pre' c'. new1 @ new2 = pre' @ [c'] \<and> clean pre' \<and> status c' \<noteq> 0 \<and>
         r = Inl (CalledProcessError (status c') (argv c'))"
      using eq cl sc rr by blast
    with P12 show ?thesis unfolding trace_ok_def by blast
  qed
qed

lemma fail_stopI:
  assumes "\<And>s r s'. m s = (r, s') \<Longrightarrow>
     printed s' = printed s \<and> (\<exists>new. calls s' = calls s @ new \<and> trace_ok P new r)"
  shows "fail_stop P m"
  using assms unfolding fail_stop_def by blast

lemma fail_stopD:
  assumes "fail_stop P m" and "m s = (r, s')"
  shows "printed s' = printed s \<and> (\<exists>new. calls s' = calls s @ new \<and> trace_ok P new r)"
  using assms unfolding fail_stop_def by blast

lemma fail_stop_silent:
  assumes "\<And>s r s'. m s = (r, s') \<Longrightarrow> printed s' = printed s \<and> calls s' = calls s"
  shows "fail_stop P m"
proof (rule fail_stopI)
  fix s r s' assume "m s = (r, s')"
  then have "printed s' = printed s" and "calls s' = calls s @ []"
    using assms by auto
  then show "printed s' = printed s \<and> (\<exists>new. calls s' = calls s @ new \<and> trace_ok P new r)"
    using trace_ok_Nil by blast
qed

lemma fail_stop_bind:
  assumes m: "fail_stop P m" and f: "\<And>x. fail_stop P (f x)"
  shows "fail_stop P (bindp m f)"
proof (rule fail_stopI)
  fix s r s' assume run: "bindp m f s = (r, s')"
  obtain r1 s1 where m1: "m s = (r1, s1)" by (cases "m s")
  from fail_stopD [OF m m1] obtain new1 where p1: "printed s1 = printed s"
    and c1: "calls s1 = calls s @ new1" and t1: "trace_ok P new1 r1"
    by blast
  show "printed s' = printed s \<and> (\<exists>new. calls s' = calls s @ new \<and> trace_ok P new r)"
  proof (cases r1)
    case (Inl e)
    with run m1 have r: "r = Inl e" and s: "s' = s1" by (simp_all add: bindp_def)
    from t1 Inl have "trace_ok P new1 r" unfolding r trace_ok_def by simp
    with p1 c1 s show ?thesis by blast
  next
    case (Inr x)
    with run m1 have f1: "f x s1 = (r, s')" by (simp add: bindp_def)
    from fail_stopD [OF f f1] obtain new2 where p2: "printed s' = printed s1"
      and c2: "calls s' = calls s1 @ new2" and t2: "trace_ok P new2 r"
      by blast
    from t1 Inr have "trace_ok P new1 (Inr x)" by simp
    from trace_ok_append [OF this t2] have t: "trace_ok P (new1 @ new2) r" .
    from c1 c2 have "calls s' = calls s @ (new1 @ new2)" by simp
    with t p1 p2 show ?thesis by metis
  qed
qed

lemma fail_stop_sp_run:
  assumes "\<And>st. P \<lparr>argv = cmd, captured = \<not> verbose, status = st\<rparr>"
  shows "fail_stop P (sp_run w cmd verbose)"
proof (rule fail_stopI)
  fix s r s' assume run: "sp_run w cmd verbose s = (r, s')"
  obtain st fs' where rp: "run_proc w (environ s) cmd (files s) = (st, fs')"
    by (cases "run_proc w (environ s) cmd (files s)")
  define c where "c = \<lparr>argv = cmd, captured = \<not> verbose, status = st\<rparr>"
  from run rp have s': "s' = s\<lparr>files := fs', calls := calls s @ [c]\<rparr>"
    and r: "r = (if st \<noteq> 0 then Inl (CalledProcessError st cmd) else Inr st)"
    by (auto simp: sp_run_def Let_def c_def split: if_splits)
  have Pc: "P c" unfolding c_def by (rule assms)
  have "trace_ok P [c] r"
  proof (cases "st = 0")
    case True
    with Pc show ?thesis by (simp add: trace_ok_def clean_def c_def)
  next
    case False
    with r have "[c] = [] @ [c] \<and> clean [] \<and> status c \<noteq> 0 \<and>
        r = Inl (CalledProcessError (status c) (argv c))"
      by (simp add: clean_def c_def)
    then have "\<exists>pre d. [c] = pre @ [d] \<and> clean pre \<and> status d \<noteq> 0 \<and>
        r = Inl (CalledProcessError (status d) (argv d))" by blast
    with Pc show ?thesis unfolding trace_ok_def by simp
  qed
  moreover from s' have "printed s' = printed s" and "calls s' = calls s @ [c]" by simp_all
  ultimately show "printed s' = printed s \<and> (\<exists>new. calls s' = calls s @ new \<and> trace_ok P new r)"
    by blast
qed

lemma fail_stop_returnp: "fail_stop P (returnp x)"
  by (rule fail_stop_silent) (simp add: returnp_def)

lemma fail_stop_liftp: "fail_stop P (liftp r)"
  by (rule fail_stop_silent) (simp add: liftp_def)

lemma fail_stop_os_remove: "fail_stop P (os_remove p)"
  by (rule fail_stop_silent) (auto simp: os_remove_def split: if_splits)

lemma fail_stop_remove_if_file: "fail_stop P (remove_if_file p)"
  by (rule fail_stop_silent)
     (auto simp: remove_if_file_def os_remove_def returnp_def split: if_splits)

lemma fail_stop_read_file: "fail_stop P (read_file p)"
  by (rule fail_stop_silent) (auto simp: read_file_def split: option.splits)

lemma fail_stop_shutil_move: "fail_stop P (shutil_move a b)"
  by (rule fail_stop_silent) (auto simp: shutil_move_def split: option.splits)

lemma fail_stop_environ_update: "fail_stop P (environ_update e)"
  by (rule fail_stop_silent) (auto simp: environ_update_def)

lemma fail_stop_mk_conf_file: "fail_stop P (mk_conf_file w conf)"
  by (rule fail_stop_silent)
     (auto simp: mk_conf_file_def Let_def bindp_def write_file_def returnp_def)

lemma fail_stop_remove_all: "fail_stop P (remove_all fps)"
proof (induction fps)
  case Nil
  show ?case by (simp add: fail_stop_returnp)
next
  case (Cons fp fps)
  have "fail_stop P (bindp (remove_if_file fp) (\<lambda>_. remove_all fps))"
    by (rule fail_stop_bind) (rule fail_stop_remove_if_file, rule Cons.IH)
  then show ?case by simp
qed

lemma fail_stop_ext:
  assumes g: "\<And>s. fail_stop P (g s)" and m: "\<And>s. m s = g s s"
  shows "fail_stop P m"
proof (rule fail_stopI)
  fix s r s' assume "m s = (r, s')"
  then have "g s s = (r, s')" by (simp add: m)
  from fail_stopD [OF g this]
  show "printed s' = printed s \<and> (\<exists>new. calls s' = calls s @ new \<and> trace_ok P new r)" .
qed

lemma fail_stop_cleanup: "fail_stop P (cleanup conf_fp out_fp)"
  by (rule fail_stop_ext [where g = "\<lambda>s. remove_all ([CVT_LOG_FILENAME, conf_fp, out_fp @ ''.met'']
                 @ glob_prefix ''filetable.temp_'' (files s)
                 @ glob_prefix ''GetAttrtemp_'' (files s))"])
     (rule fail_stop_remove_all, simp add: cleanup_def)

lemma fail_stop_stat:
  assumes "\<And>st. P \<lparr>argv = [STAT_CMD, ''-h'', inp_fp], captured = \<not> verbose, status = st\<rparr>"
  shows "fail_stop P (stat w inp_fp verbose)"
  unfolding stat_def run_stat_cmd_def
  by (intro fail_stop_bind fail_stop_sp_run fail_stop_remove_if_file fail_stop_read_file
      fail_stop_os_remove fail_stop_liftp assms)

lemma fail_stop_convert_part:
  assumes "\<And>st. P \<lparr>argv = [STAT_CMD, ''-h'', inp_fp], captured = \<not> verbose, status = st\<rparr>"
    and "\<And>st fp. P \<lparr>argv = [CVT_CMD, ''-p'', fp], captured = \<not> verbose, status = st\<rparr>"
  shows "fail_stop P (convert_part w inp_fp out_fp band verbose)"
  unfolding convert_part_def run_convert_cmd_def
  by (intro fail_stop_bind fail_stop_environ_update fail_stop_stat fail_stop_liftp
      fail_stop_mk_conf_file fail_stop_sp_run fail_stop_cleanup assms)

lemma fail_stop_reproject_part:
  assumes "\<And>st tmp. P \<lparr>argv = [WARP_CMD, out_fp, tmp, ''-t_srs'', upper proj],
      captured = \<not> verbose, status = st\<rparr>"
  shows "fail_stop P (reproject_part w out_fp proj verbose)"
proof (rule fail_stop_ext [where g = "\<lambda>s. if proj \<noteq> []
      then bindp (run_warp_cmd w out_fp (mktemp w (files s)) proj verbose)
             (\<lambda>_. shutil_move (mktemp w (files s)) out_fp)
      else returnp ()"])
  fix s
  show "fail_stop P (if proj \<noteq> []
      then bindp (run_warp_cmd w out_fp (mktemp w (files s)) proj verbose)
             (\<lambda>_. shutil_move (mktemp w (files s)) out_fp)
      else returnp ())"
    unfolding run_warp_cmd_def
    by (simp add: fail_stop_returnp fail_stop_bind fail_stop_sp_run fail_stop_shutil_move assms)
next
  fix s
  show "reproject_part w out_fp proj verbose s =
     (if proj \<noteq> []
      then bindp (run_warp_cmd w out_fp (mktemp w (files s)) proj verbose)
             (\<lambda>_. shutil_move (mktemp w (files s)) out_fp)
      else returnp ()) s"
    by (simp add: reproject_part_def Let_def)
qed

lemma fail_stop_hdf_to_tif:
  assumes "\<And>st. P \<lparr>argv = [STAT_CMD, ''-h'', inp_fp], captured = \<not> verbose, status = st\<rparr>"
    and "\<And>st fp. P \<lparr>argv = [CVT_CMD, ''-p'', fp], captured = \<not> verbose, status = st\<rparr>"
    and "\<And>st tmp. P \<lparr>argv = [WARP_CMD, out_fp, tmp, ''-t_srs'', upper proj],
      captured = \<not> verbose, status = st\<rparr>"
  shows "fail_stop P (hdf_to_tif w inp_fp out_fp band proj verbose)"
  unfolding hdf_to_tif_def
  by (intro fail_stop_bind fail_stop_convert_part fail_stop_reproject_part assms)

lemma main_trace:
  assumes run: "main w a s = (r, s')"
    and P1: "\<And>st. P \<lparr>argv = [STAT_CMD, ''-h'', inp_val a], captured = silence_val a, status = st\<rparr>"
    and P2: "\<And>st fp. P \<lparr>argv = [CVT_CMD, ''-p'', fp], captured = silence_val a, status = st\<rparr>"
    and P3: "\<And>st tmp. P \<lparr>argv = [WARP_CMD,
        (if \<not> out_found a then default_out_fp (inp_val a) else out_val a), tmp, ''-t_srs'',
        upper (proj_val a)], captured = silence_val a, status = st\<rparr>"
  shows "\<exists>new. calls s' = calls s @ new \<and> trace_ok P new r \<and>
           (new \<noteq> [] \<longrightarrow> printed s' = printed s)"
proof (cases "\<not> hlp_val a \<and> inp_found a \<and> band_found a")
  case False
  with run have "calls s' = calls s @ []"
    by (auto simp: main_def bindp_def error_def returnp_def split: if_splits)
  then show ?thesis using trace_ok_Nil by blast
next
  case True
  define out_fp where "out_fp = (if \<not> out_found a then default_out_fp (inp_val a) else out_val a)"
  from True run have h: "hdf_to_tif w (inp_val a) out_fp (band_val a) (proj_val a)
      (\<not> silence_val a) s = (r, s')"
    by (simp add: main_def bindp_def returnp_def out_fp_def)
  have "fail_stop P (hdf_to_tif w (inp_val a) out_fp (band_val a) (proj_val a) (\<not> silence_val a))"
    unfolding out_fp_def by (rule fail_stop_hdf_to_tif) (simp_all add: P1 P2 P3)
  from fail_stopD [OF this h] show ?thesis by blast
qed

lemma trace_ok_failing_index:
  assumes t: "trace_ok P new r" and i: "i < length new" and f: "status (new ! i) \<noteq> 0"
  shows "Suc i = length new \<and> r = Inl (CalledProcessError (status (new ! i)) (argv (new ! i)))"
proof -
  from i f have "\<not> clean new" unfolding clean_def using nth_mem by blast
  with t obtain pre c where n: "new = pre @ [c]" and cp: "clean pre"
    and r: "r = Inl (CalledProcessError (status c) (argv c))"
    unfolding trace_ok_def by blast
  have "\<not> i < length pre"
  proof
    assume l: "i < length pre"
    then have "new ! i = pre ! i" using n by (simp add: nth_append)
    moreover from l cp have "status (pre ! i) = 0" unfolding clean_def using nth_mem by blast
    ultimately show False using f by simp
  qed
  with i n have "i = length pre" by simp
  with n r show ?thesis by simp
qed

subsection \<open>Sample runs\<close>

lemmas run_defs = main_def hdf_to_tif_def convert_part_def reproject_part_def stat_def
  run_stat_cmd_def run_convert_cmd_def run_warp_cmd_def sp_run_def mk_conf_file_def
  cleanup_def remove_if_file_def os_remove_def read_file_def write_file_def shutil_move_def
  environ_update_def glob_prefix_def isfile_def error_def bindp_def returnp_def liftp_def
  build_conf_def and_then_def get_item_def field_name_of_def dict_get_def
  stat_lines_def Let_def
  sample_world_def sample_args_def sample_start_def sample_header_def
  STAT_CMD_def CVT_CMD_def WARP_CMD_def STAT_OUT_FILENAME_def STAT_LOG_FILENAME_def
  CVT_LOG_FILENAME_def ENV_def DEF_CONF_def BANDS_def

lemma sample_convert:
  "convert_part (sample_world 0 0 0) ''scene.HDF'' ''scene.tif'' ''evi'' True sample_start =
     (Inr (),
      \<lparr>files = [(''scene.HDF'', ''hdf'')], environ = ENV, printed = [],
       calls = [\<lparr>argv = [STAT_CMD, ''-h'', ''scene.HDF''], captured = False, status = 0\<rparr>,
                \<lparr>argv = [CVT_CMD, ''-p'', ''/tmp/tmpa''], captured = False, status = 0\<rparr>]\<rparr>)"
  by (simp add: run_defs str_defs)

lemma sample_cvt_fails:
  "calls (snd (main (sample_world 0 3 0) (sample_args False True ''epsg:4326'') sample_start)) =
     [\<lparr>argv = [STAT_CMD, ''-h'', ''scene.HDF''], captured = False, status = 0\<rparr>,
      \<lparr>argv = [CVT_CMD, ''-p'', ''/tmp/tmpa''], captured = False, status = 3\<rparr>]"
  by (simp add: run_defs str_defs default_out_fp_def)

subsection \<open>Command line\<close>

text \<open>
  C9, as the claim states it, fails: with the help flag set and no band on the command
  line, \<^verbatim>\<open>main\<close> prints the help text, no error message, and returns: the exit status
  is 0.
\<close>

theorem C9_help_counterexample:
  "\<not> band_found (sample_args True False [])
   \<and> main (sample_world 0 0 0) (sample_args True False []) sample_start =
       (Inr (), sample_start\<lparr>printed := [''options:'']\<rparr>)
   \<and> exit_status (fst (main (sample_world 0 0 0) (sample_args True False []) sample_start)) = 0"
  by (simp add: main_def sample_args_def sample_world_def sample_start_def)

text \<open>
  C9, amended: when the help flag is not set and the input path or the band alias was not
  found on the command line, \<^verbatim>\<open>main\<close> prints one line \<^verbatim>\<open>error: ...\<close> on standard
  output and ends with \<^verbatim>\<open>SystemExit(1)\<close>, exit status 1, without starting any
  subprocess.
\<close>

theorem C9_usage_error:
  assumes "\<not> hlp_val a" and "\<not> inp_found a \<or> \<not> band_found a"
  shows "main w a s =
      (Inl (SystemExit 1),
       s\<lparr>printed := printed s @
           [''error: '' @ (if \<not> inp_found a then ''must provide input filepath (use --help)''
                          else ''must provide band (use --help)'')]\<rparr>)
     \<and> exit_status (fst (main w a s)) = 1
     \<and> calls (snd (main w a s)) = calls s"
  using assms by (auto simp: main_def bindp_def error_def returnp_def)

text \<open>
  A run of C9: the sample command line without a band.
\<close>

theorem C9_usage_error_witness:
  "main (sample_world 0 0 0) (sample_args False False []) sample_start =
     (Inl (SystemExit 1), sample_start\<lparr>printed := [''error: must provide band (use --help)'']\<rparr>)
   \<and> exit_status (fst (main (sample_world 0 0 0) (sample_args False False []) sample_start)) = 1
   \<and> calls (snd (main (sample_world 0 0 0) (sample_args False False []) sample_start)) = []"
proof -
  have h1: "\<not> hlp_val (sample_args False False [])" by (simp add: sample_args_def)
  have h2: "\<not> inp_found (sample_args False False []) \<or> \<not> band_found (sample_args False False [])"
    by (simp add: sample_args_def)
  from C9_usage_error [OF h1 h2, of "sample_world 0 0 0" sample_start] show ?thesis
    by (simp add: sample_args_def sample_start_def)
qed

subsection \<open>Tool failures\<close>

text \<open>
  C2, as the claim states it, fails: when the stat tool exits with status 1 the run ends
  with the \<^verbatim>\<open>CalledProcessError\<close> that \<^verbatim>\<open>check=True\<close> raises, and the program has
  printed nothing on standard output, so no \<^verbatim>\<open>error:\<close> line.
\<close>

theorem C2_no_error_line_counterexample:
  "fst (main (sample_world 1 0 0) (sample_args False True []) sample_start) =
     Inl (CalledProcessError 1 [STAT_CMD, ''-h'', ''scene.HDF''])
   \<and> printed (snd (main (sample_world 1 0 0) (sample_args False True []) sample_start)) = []"
  by (simp add: run_defs str_defs default_out_fp_def)

text \<open>
  C2, amended: for every subprocess the run starts (stat, convert or reproject) that
  exits with a status other than 0, it is the last subprocess of the run, \<^verbatim>\<open>main\<close> ends
  with the uncaught \<^verbatim>\<open>CalledProcessError\<close> of that subprocess, the exit status of the
  interpreter is 1, and the program itself has printed nothing on standard output during
  the run. The subprocesses started before the run are left as they were.
\<close>

theorem C2_tool_failure_uncaught:
  assumes "length (calls s) \<le> i"
    and "i < length (calls (snd (main w a s)))"
    and "status (calls (snd (main w a s)) ! i) \<noteq> 0"
  shows "take (length (calls s)) (calls (snd (main w a s))) = calls s
     \<and> Suc i = length (calls (snd (main w a s)))
     \<and> fst (main w a s) =
         Inl (CalledProcessError (status (calls (snd (main w a s)) ! i))
               (argv (calls (snd (main w a s)) ! i)))
     \<and> exit_status (fst (main w a s)) = 1
     \<and> printed (snd (main w a s)) = printed s"
proof -
  obtain r s' where run: "main w a s = (r, s')" by (cases "main w a s")
  from main_trace [OF run, where P = "\<lambda>_. True"]
  obtain new where c: "calls s' = calls s @ new" and t: "trace_ok (\<lambda>_. True) new r"
    and p: "new \<noteq> [] \<longrightarrow> printed s' = printed s"
    by auto
  define j where "j = i - length (calls s)"
  from assms(1,2) run c have j: "j < length new" and ij: "i = length (calls s) + j"
    by (simp_all add: j_def)
  from assms(3) run c ij have f: "status (new ! j) \<noteq> 0" by (simp add: nth_append)
  from trace_ok_failing_index [OF t j f]
  have l: "Suc j = length new"
    and r: "r = Inl (CalledProcessError (status (new ! j)) (argv (new ! j)))"
    by simp_all
  from j p have pr: "printed s' = printed s" by auto
  have nth: "calls s' ! i = new ! j" using c ij by (simp add: nth_append)
  from r have ex: "exit_status r = 1" by simp
  show ?thesis using run c l r pr nth ex ij by simp
qed

text \<open>
  A run of C2: the conversion tool exits with status 3.
\<close>

theorem C2_tool_failure_uncaught_witness:
  "fst (main (sample_world 0 3 0) (sample_args False True ''epsg:4326'') sample_start) =
     Inl (CalledProcessError 3 [CVT_CMD, ''-p'', ''/tmp/tmpa''])
   \<and> exit_status
       (fst (main (sample_world 0 3 0) (sample_args False True ''epsg:4326'') sample_start)) = 1
   \<and> printed (snd (main (sample_world 0 3 0) (sample_args False True ''epsg:4326'')
        sample_start)) = []
   \<and> length (calls (snd (main (sample_world 0 3 0) (sample_args False True ''epsg:4326'')
        sample_start))) = 2"
proof -
  have h1: "length (calls sample_start) \<le> 1" by (simp add: sample_start_def)
  have h2: "1 < length (calls (snd (main (sample_world 0 3 0)
      (sample_args False True ''epsg:4326'') sample_start)))"
    by (simp add: sample_cvt_fails)
  have h3: "status (calls (snd (main (sample_world 0 3 0)
      (sample_args False True ''epsg:4326'') sample_start)) ! 1) \<noteq> 0"
    by (simp add: sample_cvt_fails)
  have p0: "printed sample_start = []" by (simp add: sample_start_def)
  from C2_tool_failure_uncaught [OF h1 h2 h3] show ?thesis
    by (simp add: sample_cvt_fails p0)
qed

subsection \<open>Reprojection\<close>

lemma reproject_calls:
  assumes "proj \<noteq> []"
  shows "calls (snd (reproject_part w out_fp proj verbose s1)) =
     calls s1 @
       [\<lparr>argv = [WARP_CMD, out_fp, mktemp w (files s1), ''-t_srs'', upper proj],
         captured = \<not> verbose,
         status = fst (run_proc w (environ s1)
                    [WARP_CMD, out_fp, mktemp w (files s1), ''-t_srs'', upper proj]
                    (files s1))\<rparr>]"
proof -
  obtain st fs' where rp: "run_proc w (environ s1)
      [WARP_CMD, out_fp, mktemp w (files s1), ''-t_srs'', upper proj] (files s1) = (st, fs')"
    by (cases "run_proc w (environ s1)
      [WARP_CMD, out_fp, mktemp w (files s1), ''-t_srs'', upper proj] (files s1)")
  show ?thesis
    using assms rp
    by (simp add: reproject_part_def Let_def bindp_def run_warp_cmd_def sp_run_def
        shutil_move_def split: option.splits)
qed

text \<open>
  C10: every reprojection subprocess a run of \<^verbatim>\<open>main\<close> starts has five arguments, the
  fourth \<^verbatim>\<open>-t_srs\<close> and the fifth the projection option upper-cased. When the projection
  option is not empty and the conversion part has succeeded, the run does start it: the
  subprocesses of the run are those of the conversion part and then
  \<^verbatim>\<open>gdalwarp <output> <temporary> -t_srs <PROJECTION>\<close>.
\<close>

theorem C10_projection_upper_cased:
  "(\<forall>c \<in> set (drop (length (calls s)) (calls (snd (main w a s)))).
      hd (argv c) = WARP_CMD \<longrightarrow>
        length (argv c) = 5 \<and> argv c ! 3 = ''-t_srs'' \<and> argv c ! 4 = upper (proj_val a))
   \<and> (\<not> hlp_val a \<and> inp_found a \<and> band_found a \<and> proj_val a \<noteq> [] \<and>
       out_fp = (if \<not> out_found a then default_out_fp (inp_val a) else out_val a) \<and>
       convert_part w (inp_val a) out_fp (band_val a) (\<not> silence_val a) s = (Inr (), s1) \<longrightarrow>
         calls (snd (main w a s)) =
           calls s1 @
             [\<lparr>argv = [WARP_CMD, out_fp, mktemp w (files s1), ''-t_srs'', upper (proj_val a)],
               captured = silence_val a,
               status = fst (run_proc w (environ s1)
                          [WARP_CMD, out_fp, mktemp w (files s1), ''-t_srs'',
                           upper (proj_val a)]
                          (files s1))\<rparr>])"
proof (rule conjI, intro ballI impI)
  fix c assume c: "c \<in> set (drop (length (calls s)) (calls (snd (main w a s))))"
    and w: "hd (argv c) = WARP_CMD"
  obtain r s' where run: "main w a s = (r, s')" by (cases "main w a s")
  define P :: "call \<Rightarrow> bool" where "P = (\<lambda>c. hd (argv c) = WARP_CMD \<longrightarrow>
        length (argv c) = 5 \<and> argv c ! 3 = ''-t_srs'' \<and> argv c ! 4 = upper (proj_val a))"
  have "\<exists>new. calls s' = calls s @ new \<and> trace_ok P new r \<and>
           (new \<noteq> [] \<longrightarrow> printed s' = printed s)"
    by (rule main_trace [OF run])
       (simp_all add: P_def STAT_CMD_def CVT_CMD_def WARP_CMD_def)
  then obtain new where n: "calls s' = calls s @ new" and t: "trace_ok P new r" by blast
  from c run n have "c \<in> set new" by simp
  with t have "P c" unfolding trace_ok_def by blast
  with w show "length (argv c) = 5 \<and> argv c ! 3 = ''-t_srs'' \<and> argv c ! 4 = upper (proj_val a)"
    by (simp add: P_def)
next
  show "\<not> hlp_val a \<and> inp_found a \<and> band_found a \<and> proj_val a \<noteq> [] \<and>
       out_fp = (if \<not> out_found a then default_out_fp (inp_val a) else out_val a) \<and>
       convert_part w (inp_val a) out_fp (band_val a) (\<not> silence_val a) s = (Inr (), s1) \<longrightarrow>
         calls (snd (main w a s)) =
           calls s1 @
             [\<lparr>argv = [WARP_CMD, out_fp, mktemp w (files s1), ''-t_srs'', upper (proj_val a)],
               captured = silence_val a,
               status = fst (run_proc w (environ s1)
                          [WARP_CMD, out_fp, mktemp w (files s1), ''-t_srs'',
                           upper (proj_val a)]
                          (files s1))\<rparr>]"
  proof
  assume h: "\<not> hlp_val a \<and> inp_found a \<and> band_found a \<and> proj_val a \<noteq> [] \<and>
       out_fp = (if \<not> out_found a then default_out_fp (inp_val a) else out_val a) \<and>
       convert_part w (inp_val a) out_fp (band_val a) (\<not> silence_val a) s = (Inr (), s1)"
  then have nh: "\<not> hlp_val a" and fi: "inp_found a" and fb: "band_found a"
    and o: "out_fp = (if \<not> out_found a then default_out_fp (inp_val a) else out_val a)"
    and cp: "convert_part w (inp_val a) out_fp (band_val a) (\<not> silence_val a) s
      = (Inr (), s1)"
    by blast+
  from nh fi fb have "main w a s =
      hdf_to_tif w (inp_val a) out_fp (band_val a) (proj_val a) (\<not> silence_val a) s"
    unfolding o by (simp add: main_def bindp_def returnp_def Let_def)
  also from cp have "\<dots> = reproject_part w out_fp (proj_val a) (\<not> silence_val a) s1"
    by (simp add: hdf_to_tif_def bindp_def)
  finally have "main w a s = reproject_part w out_fp (proj_val a) (\<not> silence_val a) s1" .
  moreover from h have "proj_val a \<noteq> []" by simp
  ultimately show "calls (snd (main w a s)) =
           calls s1 @
             [\<lparr>argv = [WARP_CMD, out_fp, mktemp w (files s1), ''-t_srs'', upper (proj_val a)],
               captured = silence_val a,
               status = fst (run_proc w (environ s1)
                          [WARP_CMD, out_fp, mktemp w (files s1), ''-t_srs'',
                           upper (proj_val a)]
                          (files s1))\<rparr>]"
    using reproject_calls [of "proj_val a" w out_fp "\<not> silence_val a" s1] by simp
  qed
qed

text \<open>
  A run of C10: the projection \<^verbatim>\<open>"epsg:4326"\<close> reaches the tool as
  \<^verbatim>\<open>"EPSG:4326"\<close>.
\<close>

theorem C10_projection_upper_cased_witness:
  "calls (snd (main (sample_world 0 0 0) (sample_args False True ''epsg:4326'') sample_start)) =
     [\<lparr>argv = [STAT_CMD, ''-h'', ''scene.HDF''], captured = False, status = 0\<rparr>,
      \<lparr>argv = [CVT_CMD, ''-p'', ''/tmp/tmpa''], captured = False, status = 0\<rparr>,
      \<lparr>argv = [WARP_CMD, ''scene.tif'', ''/tmp/tmpa'', ''-t_srs'', ''EPSG:4326''],
        captured = False, status = 0\<rparr>]"
proof -
  define s1 where "s1 = \<lparr>files = [(''scene.HDF'', ''hdf'')], environ = ENV, printed = [],
       calls = [\<lparr>argv = [STAT_CMD, ''-h'', ''scene.HDF''], captured = False, status = 0\<rparr>,
                \<lparr>argv = [CVT_CMD, ''-p'', ''/tmp/tmpa''], captured = False, status = 0\<rparr>]\<rparr>"
  have a: "\<not> hlp_val (sample_args False True ''epsg:4326'')"
    "inp_found (sample_args False True ''epsg:4326'')"
    "band_found (sample_args False True ''epsg:4326'')"
    "proj_val (sample_args False True ''epsg:4326'') = ''epsg:4326''"
    "inp_val (sample_args False True ''epsg:4326'') = ''scene.HDF''"
    "band_val (sample_args False True ''epsg:4326'') = ''evi''"
    "\<not> silence_val (sample_args False True ''epsg:4326'')"
    "\<not> out_found (sample_args False True ''epsg:4326'')"
    by (simp_all add: sample_args_def)
  have d: "default_out_fp ''scene.HDF'' = ''scene.tif''"
    by (simp add: default_out_fp_def str_defs)
  have u: "upper ''epsg:4326'' = ''EPSG:4326''" by (simp add: str_defs)
  have h: "\<not> hlp_val (sample_args False True ''epsg:4326'') \<and>
       inp_found (sample_args False True ''epsg:4326'') \<and>
       band_found (sample_args False True ''epsg:4326'') \<and>
       proj_val (sample_args False True ''epsg:4326'') \<noteq> [] \<and>
       ''scene.tif'' = (if \<not> out_found (sample_args False True ''epsg:4326'')
          then default_out_fp (inp_val (sample_args False True ''epsg:4326''))
          else out_val (sample_args False True ''epsg:4326'')) \<and>
       convert_part (sample_world 0 0 0) (inp_val (sample_args False True ''epsg:4326''))
         ''scene.tif'' (band_val (sample_args False True ''epsg:4326''))
         (\<not> silence_val (sample_args False True ''epsg:4326'')) sample_start = (Inr (), s1)"
    by (simp add: a d sample_convert s1_def)
  have m: "mktemp (sample_world 0 0 0) (files s1) = ''/tmp/tmpa''"
    by (simp add: s1_def sample_world_def isfile_def)
  have st: "fst (run_proc (sample_world 0 0 0) (environ s1)
      [WARP_CMD, ''scene.tif'', ''/tmp/tmpa'', ''-t_srs'', ''EPSG:4326''] (files s1)) = 0"
    by (simp add: sample_world_def WARP_CMD_def STAT_CMD_def CVT_CMD_def)
  from C10_projection_upper_cased [where a = "sample_args False True ''epsg:4326''"
      and w = "sample_world 0 0 0" and s = sample_start and out_fp = "''scene.tif''"
      and ?s1.0 = s1] h
  have "calls (snd (main (sample_world 0 0 0) (sample_args False True ''epsg:4326'')
      sample_start)) =
      calls s1 @
        [\<lparr>argv = [WARP_CMD, ''scene.tif'', mktemp (sample_world 0 0 0) (files s1), ''-t_srs'',
            upper (proj_val (sample_args False True ''epsg:4326''))],
          captured = silence_val (sample_args False True ''epsg:4326''),
          status = fst (run_proc (sample_world 0 0 0) (environ s1)
             [WARP_CMD, ''scene.tif'', mktemp (sample_world 0 0 0) (files s1), ''-t_srs'',
              upper (proj_val (sample_args False True ''epsg:4326''))] (files s1))\<rparr>]"
    by blast
  then show ?thesis by (simp add: a u m st) (simp add: s1_def)
qed

end
